theory Spec2Isabelle
  imports Complex_Main "HOL-Library.Char_ord" "HOL-Library.List_Lexorder"
    "HOL-Library.Product_Lexorder"
begin

section \<open>Python values used by glucometerutils\<close>

text \<open>
  The reading values of \<^verbatim>\<open>glucometerutils/common.py\<close> are Python numbers: an \<^verbatim>\<open>int\<close> or a
  \<^verbatim>\<open>float\<close>. A float is an IEEE 754 double: a finite double is given by the rational number
  it is exactly equal to, and there are the negative zero and the two infinities, which
  arithmetic reaches by underflow and overflow. There is no NaN: no operation of the
  program makes one from the other values.
\<close>

datatype pyfloat = Fin rat | NegZero | PInf | NInf

datatype pynum = PyInt int | PyFloat pyfloat

text \<open>Rounding to the nearest integer, a tie to the even one.\<close>

definition round_pick :: "rat \<Rightarrow> int \<Rightarrow> int" where
  "round_pick q f =
     (if q - of_int f < 1 / 2 then f else if 1 / 2 < q - of_int f then f + 1
      else if even f then f else f + 1)"

definition round_half_even :: "rat \<Rightarrow> int" where
  "round_half_even q = round_pick q \<lfloor>q\<rfloor>"

text \<open>The number of digits of a positive integer in base \<open>b\<close>.\<close>

function ndigits :: "int \<Rightarrow> int \<Rightarrow> nat" where
  "ndigits b x = (if x \<le> 0 \<or> b \<le> 1 then 0 else Suc (ndigits b (x div b)))"
  by pat_completeness auto
termination
  by (relation "measure (\<lambda>(b, x). nat x)") (auto simp: int_div_less_self)

declare ndigits.simps [simp del]

definition pow :: "rat \<Rightarrow> int \<Rightarrow> rat" where
  "pow b e = (if 0 \<le> e then b ^ nat e else 1 / b ^ nat (- e))"

text \<open>
  \<open>ilog b q\<close> is the integer part of the logarithm of a positive \<open>q\<close> in base \<open>b\<close>: the
  difference of the numbers of digits of numerator and denominator, or one less.
\<close>

definition ilog_pick :: "int \<Rightarrow> rat \<Rightarrow> int \<Rightarrow> int" where
  "ilog_pick b q k = (if pow (of_int b) k \<le> q then k else k - 1)"

definition ilog :: "int \<Rightarrow> rat \<Rightarrow> int" where
  "ilog b q =
     ilog_pick b q (int (ndigits b (fst (quotient_of q))) - int (ndigits b (snd (quotient_of q))))"

text \<open>
  The double nearest to a rational, a tie to the even significand: the significand has 53
  bits, and the exponent of its last bit is at least -1074 (below that the doubles are
  subnormal and evenly spaced).
\<close>

definition scale_round :: "rat \<Rightarrow> rat \<Rightarrow> rat" where
  "scale_round q s = of_int (round_half_even (q / s)) * s"

definition rnd :: "rat \<Rightarrow> rat" where
  "rnd q = (if q = 0 then 0 else scale_round q (pow 2 (max (ilog 2 \<bar>q\<bar> - 52) (- 1074))))"

text \<open>
  The result of an operation whose exact value is \<open>q\<close>, rounded to \<open>r\<close>: an infinity from
  \<open>2 ^ 1024\<close> on, and a zero that keeps the sign \<open>neg\<close> of the exact result.
\<close>

definition classify :: "rat \<Rightarrow> bool \<Rightarrow> pyfloat" where
  "classify r neg =
     (if r = 0 then (if neg then NegZero else Fin 0)
      else if 1024 \<le> ilog 2 \<bar>r\<bar> then (if neg then NInf else PInf)
      else Fin r)"

definition round_double :: "rat \<Rightarrow> bool \<Rightarrow> pyfloat" where
  "round_double q neg = classify (rnd q) neg"

text \<open>The float that a decimal literal denotes: \<open>float_lit (6 / 10)\<close> is \<^verbatim>\<open>0.6\<close>.\<close>

definition float_lit :: "rat \<Rightarrow> pyfloat" where
  "float_lit q = round_double q (q < 0)"

text \<open>\<^verbatim>\<open>x / c\<close> and \<^verbatim>\<open>x * c\<close> for floats, \<open>c\<close> a positive finite double.\<close>

fun fdiv :: "pyfloat \<Rightarrow> rat \<Rightarrow> pyfloat" where
  "fdiv (Fin q) c = round_double (q / c) (q < 0)"
| "fdiv NegZero c = NegZero"
| "fdiv PInf c = PInf"
| "fdiv NInf c = NInf"

fun fmul :: "pyfloat \<Rightarrow> rat \<Rightarrow> pyfloat" where
  "fmul (Fin q) c = round_double (q * c) (q < 0)"
| "fmul NegZero c = NegZero"
| "fmul PInf c = PInf"
| "fmul NInf c = NInf"

text \<open>
  \<^verbatim>\<open>round(x, n)\<close> for a float and \<^verbatim>\<open>n >= 0\<close>: CPython rounds the exact value of \<^verbatim>\<open>x\<close> to \<open>n\<close>
  decimals, a tie to the even digit, and returns the double nearest to that decimal. The
  sign of \<^verbatim>\<open>x\<close> is kept, and an infinity is returned as it is.
\<close>

definition dec_round :: "rat \<Rightarrow> nat \<Rightarrow> rat" where
  "dec_round q n = of_int (round_half_even (q * 10 ^ n)) / 10 ^ n"

fun round_float :: "pyfloat \<Rightarrow> nat \<Rightarrow> pyfloat" where
  "round_float (Fin q) n = round_double (dec_round q n) (q < 0)"
| "round_float NegZero n = NegZero"
| "round_float PInf n = PInf"
| "round_float NInf n = NInf"

text \<open>
  An int becomes a float when it meets one in \<^verbatim>\<open>/\<close>, \<^verbatim>\<open>*\<close> or \<^verbatim>\<open>%.2f\<close>: the nearest double. From
  \<open>2 ^ 1024\<close> on, where \<open>float_of_int\<close> gives an infinity, Python raises \<^verbatim>\<open>OverflowError\<close>
  instead; readings of that size are not modelled.
\<close>

definition float_of_int :: "int \<Rightarrow> pyfloat" where
  "float_of_int i = round_double (of_int i) (i < 0)"

fun to_float :: "pynum \<Rightarrow> pyfloat" where
  "to_float (PyInt i) = float_of_int i"
| "to_float (PyFloat x) = x"

text \<open>\<^verbatim>\<open>round(x, n)\<close> with \<^verbatim>\<open>n >= 0\<close>: an int is returned as it is, a float is rounded.\<close>

fun py_round :: "pynum \<Rightarrow> nat \<Rightarrow> pynum" where
  "py_round (PyInt i) n = PyInt i"
| "py_round (PyFloat x) n = PyFloat (round_float x n)"

text \<open>\<^verbatim>\<open>x / 18.0\<close> and \<^verbatim>\<open>x * 18.0\<close>: the result is a float whatever \<^verbatim>\<open>x\<close> is.\<close>

definition truediv_float :: "pynum \<Rightarrow> rat \<Rightarrow> pynum" where
  "truediv_float x c = PyFloat (fdiv (to_float x) c)"

definition mul_float :: "pynum \<Rightarrow> rat \<Rightarrow> pynum" where
  "mul_float x c = PyFloat (fmul (to_float x) c)"

text \<open>The exact value of a number that is not an infinity.\<close>

fun is_fin :: "pyfloat \<Rightarrow> bool" where
  "is_fin (Fin q) = True"
| "is_fin NegZero = True"
| "is_fin PInf = False"
| "is_fin NInf = False"

fun fval :: "pyfloat \<Rightarrow> rat" where
  "fval (Fin q) = q"
| "fval NegZero = 0"
| "fval PInf = 0"
| "fval NInf = 0"

fun finite_num :: "pynum \<Rightarrow> bool" where
  "finite_num (PyInt i) = True"
| "finite_num (PyFloat x) = is_fin x"

fun num :: "pynum \<Rightarrow> rat" where
  "num (PyInt i) = of_int i"
| "num (PyFloat x) = fval x"

text \<open>
  Python compares ints and floats by their exact values, with the infinities below and
  above every number: the order of these pairs.
\<close>

fun cmp_key :: "pynum \<Rightarrow> int \<times> rat" where
  "cmp_key (PyInt i) = (0, of_int i)"
| "cmp_key (PyFloat (Fin q)) = (0, q)"
| "cmp_key (PyFloat NegZero) = (0, 0)"
| "cmp_key (PyFloat PInf) = (1, 0)"
| "cmp_key (PyFloat NInf) = (- 1, 0)"

section \<open>common.py: units and conversion\<close>

datatype Unit = MG_DL | MMOL_L

datatype Meal = NONE | BEFORE | AFTER

datatype MeasurementMethod = BLOOD_SAMPLE | CGM

fun convert_glucose_unit :: "pynum \<Rightarrow> Unit \<Rightarrow> Unit \<Rightarrow> pynum" where
  "convert_glucose_unit v from_unit to_unit =
     (if from_unit = to_unit then v
      else if from_unit = MG_DL then py_round (truediv_float v 18) 2
      else py_round (mul_float v 18) 0)"


section \<open>Python string formatting\<close>

definition TAB :: char where "TAB = CHR 0x09"
definition LF :: char where "LF = CHR 0x0A"
definition CR :: char where "CR = CHR 0x0D"
definition DQ :: char where "DQ = CHR 0x22"
definition SQ :: char where "SQ = CHR 0x27"

definition digit_char :: "nat \<Rightarrow> char" where
  "digit_char d = ''0123456789'' ! (d mod 10)"

fun str_nat :: "nat \<Rightarrow> string" where
  "str_nat n = (if n < 10 then [digit_char n] else str_nat (n div 10) @ [digit_char (n mod 10)])"

declare str_nat.simps [simp del]

text \<open>The decimal digits of an integer that is not negative.\<close>

function str_digits :: "int \<Rightarrow> string" where
  "str_digits i =
     (if i < 10 then [digit_char (nat (i mod 10))]
      else str_digits (i div 10) @ [digit_char (nat (i mod 10))])"
  by pat_completeness auto
termination
  by (relation "measure nat") (auto simp: int_div_less_self)

declare str_digits.simps [simp del]

definition str_int :: "int \<Rightarrow> string" where
  "str_int i = (if i < 0 then ''-'' @ str_digits (- i) else str_digits i)"

text \<open>\<^verbatim>\<open>"%0wd" % n\<close> for a natural number.\<close>

definition zfill :: "nat \<Rightarrow> string \<Rightarrow> string" where
  "zfill w s = replicate (w - length s) (CHR ''0'') @ s"

text \<open>
  \<^verbatim>\<open>str(x)\<close> of a float is its \<^verbatim>\<open>repr\<close>: the shortest decimal that reads back as \<^verbatim>\<open>x\<close>, and of
  the decimals of that length the nearest to \<^verbatim>\<open>x\<close>. For a positive double \<open>q\<close> and the
  exponent \<open>p\<close> of the last digit, the two decimals around \<open>q\<close> are \<open>lo\<close> and \<open>lo + 1\<close> times
  \<open>10 ^ p\<close>; \<open>repr_search\<close> tries 1 to 16 digits and takes the nearest decimal of 17 digits
  otherwise, which always reads back.
\<close>

definition repr_choose :: "rat \<Rightarrow> rat \<Rightarrow> int \<Rightarrow> bool \<Rightarrow> bool \<Rightarrow> int option" where
  "repr_choose q s lo ok_lo ok_hi =
     (if ok_lo \<and> ok_hi then
        (if q - of_int lo * s < of_int (lo + 1) * s - q then Some lo
         else if of_int (lo + 1) * s - q < q - of_int lo * s then Some (lo + 1)
         else if even lo then Some lo else Some (lo + 1))
      else if ok_lo then Some lo
      else if ok_hi then Some (lo + 1)
      else None)"

definition repr_try_at :: "rat \<Rightarrow> rat \<Rightarrow> int \<Rightarrow> int option" where
  "repr_try_at q s lo =
     repr_choose q s lo (0 < lo \<and> rnd (of_int lo * s) = q) (rnd (of_int (lo + 1) * s) = q)"

definition repr_try :: "rat \<Rightarrow> int \<Rightarrow> int option" where
  "repr_try q p = repr_try_at q (pow 10 p) \<lfloor>q / pow 10 p\<rfloor>"

fun repr_search :: "rat \<Rightarrow> int \<Rightarrow> nat \<Rightarrow> int \<times> int" where
  "repr_search q p 0 = (round_half_even (q / pow 10 p), p)"
| "repr_search q p (Suc n) =
     (case repr_try q p of Some d \<Rightarrow> (d, p) | None \<Rightarrow> repr_search q (p - 1) n)"

function strip_zeros :: "int \<Rightarrow> int \<Rightarrow> int \<times> int" where
  "strip_zeros d p = (if 0 < d \<and> d mod 10 = 0 then strip_zeros (d div 10) (p + 1) else (d, p))"
  by pat_completeness auto
termination
  by (relation "measure (\<lambda>(d, p). nat d)") (auto simp: int_div_less_self)

declare strip_zeros.simps [simp del]

text \<open>The digits \<open>d\<close> of the shortest decimal \<open>d * 10 ^ p\<close>, without zeros at the end.\<close>

definition repr_digits :: "rat \<Rightarrow> int \<times> int" where
  "repr_digits q = (case repr_search q (ilog 10 q) 16 of (d, p) \<Rightarrow> strip_zeros d p)"

text \<open>
  The digits \<open>ds\<close> with the decimal point after the first \<open>decpt\<close> of them: written out when
  \<open>-4 < decpt <= 16\<close>, with an exponent of at least two digits otherwise.
\<close>

definition fmt_positional :: "string \<Rightarrow> int \<Rightarrow> string" where
  "fmt_positional ds decpt =
     (if decpt \<le> 0 then ''0.'' @ replicate (nat (- decpt)) (CHR ''0'') @ ds
      else if int (length ds) \<le> decpt
      then ds @ replicate (nat (decpt - int (length ds))) (CHR ''0'') @ ''.0''
      else take (nat decpt) ds @ ''.'' @ drop (nat decpt) ds)"

definition fmt_exponent :: "string \<Rightarrow> int \<Rightarrow> string" where
  "fmt_exponent ds ex =
     take 1 ds @ (if 1 < length ds then ''.'' @ drop 1 ds else []) @ ''e'' @
     (if ex < 0 then ''-'' else ''+'') @ zfill 2 (str_digits \<bar>ex\<bar>)"

definition fmt_repr :: "string \<Rightarrow> int \<Rightarrow> string" where
  "fmt_repr ds decpt =
     (if - 4 < decpt \<and> decpt \<le> 16 then fmt_positional ds decpt else fmt_exponent ds (decpt - 1))"

definition fmt_digits :: "string \<Rightarrow> int \<Rightarrow> string" where
  "fmt_digits ds p = fmt_repr ds (int (length ds) + p)"

definition str_pos :: "rat \<Rightarrow> string" where
  "str_pos q = (case repr_digits q of (d, p) \<Rightarrow> fmt_digits (str_digits d) p)"

fun str_float :: "pyfloat \<Rightarrow> string" where
  "str_float (Fin q) = (if q = 0 then ''0.0'' else (if q < 0 then ''-'' else []) @ str_pos \<bar>q\<bar>)"
| "str_float NegZero = ''-0.0''"
| "str_float PInf = ''inf''"
| "str_float NInf = ''-inf''"

fun py_str :: "pynum \<Rightarrow> string" where
  "py_str (PyInt i) = str_int i"
| "py_str (PyFloat x) = str_float x"

text \<open>
  \<^verbatim>\<open>"%.2f" % x\<close>: the exact value of the float rounded to two decimals, a tie to the even
  digit; the sign of \<^verbatim>\<open>x\<close> is kept. An int is made a float first.
\<close>

definition fixed2 :: "bool \<Rightarrow> int \<Rightarrow> string" where
  "fixed2 neg n =
     (if neg then ''-'' else []) @ str_digits (n div 100) @ ''.'' @ zfill 2 (str_digits (n mod 100))"

fun fmt_2f_float :: "pyfloat \<Rightarrow> string" where
  "fmt_2f_float (Fin q) = fixed2 (q < 0) \<bar>round_half_even (q * 100)\<bar>"
| "fmt_2f_float NegZero = ''-0.00''"
| "fmt_2f_float PInf = ''inf''"
| "fmt_2f_float NInf = ''-inf''"

definition fmt_2f :: "pynum \<Rightarrow> string" where
  "fmt_2f x = fmt_2f_float (to_float x)"

definition startswith :: "string \<Rightarrow> string \<Rightarrow> bool" where
  "startswith s p = (take (length p) s = p)"

fun join :: "string \<Rightarrow> string list \<Rightarrow> string" where
  "join sep [] = []"
| "join sep [x] = x"
| "join sep (x # y # ys) = x @ sep @ join sep (y # ys)"

definition isspace :: "char \<Rightarrow> bool" where
  "isspace c = (c \<in> set [CHR 0x09, CHR 0x0A, CHR 0x0B, CHR 0x0C, CHR 0x0D,
                            CHR 0x1C, CHR 0x1D, CHR 0x1E, CHR 0x1F, CHR 0x20])"

definition strip :: "string \<Rightarrow> string" where
  "strip s = rev (dropWhile isspace (rev (dropWhile isspace s)))"

definition lower_char :: "char \<Rightarrow> char" where
  "lower_char c =
     (let n = (of_char c :: nat) in if 65 \<le> n \<and> n \<le> 90 then char_of (n + 32) else c)"

definition lower :: "string \<Rightarrow> string" where
  "lower s = map lower_char s"

section \<open>datetime\<close>

record datetime =
  year :: nat
  month :: nat
  day :: nat
  hour :: nat
  minute :: nat
  second :: nat
  microsecond :: nat

text \<open>
  Python orders datetimes as the tuples (year, month, day, hour, minute, second,
  microsecond): \<open>d > e\<close> is \<open>dt_key d > dt_key e\<close> in the lexicographic order of lists.
\<close>

definition dt_key :: "datetime \<Rightarrow> nat list" where
  "dt_key d = [year d, month d, day d, hour d, minute d, second d, microsecond d]"

text \<open>\<^verbatim>\<open>str(d)\<close>: ISO format with a space; the microseconds only when they are not zero.\<close>

definition dt_str :: "datetime \<Rightarrow> string" where
  "dt_str d =
     zfill 4 (str_nat (year d)) @ ''-'' @ zfill 2 (str_nat (month d)) @ ''-'' @
     zfill 2 (str_nat (day d)) @ '' '' @ zfill 2 (str_nat (hour d)) @ '':'' @
     zfill 2 (str_nat (minute d)) @ '':'' @ zfill 2 (str_nat (second d)) @
     (if microsecond d = 0 then [] else ''.'' @ zfill 6 (str_nat (microsecond d)))"

text \<open>\<^verbatim>\<open>'{:%Y/%m/%d %H:%M}'.format(d)\<close> (years of four digits).\<close>

definition fmt_ymd_hm :: "datetime \<Rightarrow> string" where
  "fmt_ymd_hm d =
     zfill 4 (str_nat (year d)) @ ''/'' @ zfill 2 (str_nat (month d)) @ ''/'' @
     zfill 2 (str_nat (day d)) @ '' '' @ zfill 2 (str_nat (hour d)) @ '':'' @
     zfill 2 (str_nat (minute d))"

text \<open>\<^verbatim>\<open>'{:%Y%m%d%H%M%S}'.format(d)\<close>.\<close>

definition fmt_ymdhms :: "datetime \<Rightarrow> string" where
  "fmt_ymdhms d =
     zfill 4 (str_nat (year d)) @ zfill 2 (str_nat (month d)) @ zfill 2 (str_nat (day d)) @
     zfill 2 (str_nat (hour d)) @ zfill 2 (str_nat (minute d)) @ zfill 2 (str_nat (second d))"

section \<open>common.py: readings\<close>

text \<open>
  \<^verbatim>\<open>measure_method\<close> is whatever the driver passed to the constructor: a member of the enum
  \<^verbatim>\<open>MeasurementMethod\<close> (the default is \<^verbatim>\<open>MeasurementMethod.BLOOD_SAMPLE\<close>) or a plain string (the
  docstring of \<^verbatim>\<open>GlucoseReading.__new__\<close> says \<^verbatim>\<open>(string)\<close>). The enum is a plain
  \<^verbatim>\<open>enum.Enum\<close>, so a member never compares equal to a string, and only a member has
  \<^verbatim>\<open>.value\<close>.
\<close>

datatype mm_value = MMEnum MeasurementMethod | MMStr string

fun Unit_value :: "Unit \<Rightarrow> string" where
  "Unit_value MG_DL = ''mg/dL''"
| "Unit_value MMOL_L = ''mmol/L''"

fun Meal_value :: "Meal \<Rightarrow> string" where
  "Meal_value NONE = []"
| "Meal_value BEFORE = ''Before Meal''"
| "Meal_value AFTER = ''After Meal''"

fun MeasurementMethod_value :: "MeasurementMethod \<Rightarrow> string" where
  "MeasurementMethod_value BLOOD_SAMPLE = ''blood sample''"
| "MeasurementMethod_value CGM = ''CGM''"

datatype exc =
    ImportError string
  | ValueError
  | AttributeError
  | TypeError
  | NotImplementedError
  | OSError
  | Error string
  | OtherException string

text \<open>\<^verbatim>\<open>m == s\<close> for a string \<^verbatim>\<open>s\<close>.\<close>

fun mm_eq_str :: "mm_value \<Rightarrow> string \<Rightarrow> bool" where
  "mm_eq_str (MMEnum m) s = False"
| "mm_eq_str (MMStr t) s = (t = s)"

text \<open>\<^verbatim>\<open>m.value\<close>.\<close>

fun mm_dot_value :: "mm_value \<Rightarrow> exc + string" where
  "mm_dot_value (MMEnum m) = Inr (MeasurementMethod_value m)"
| "mm_dot_value (MMStr t) = Inl AttributeError"

record ReadingBase =
  timestamp :: datetime
  val :: pynum
  comment :: string
  measure_method :: mm_value

datatype reading = GlucoseReading ReadingBase Meal | KetoneReading ReadingBase

fun base :: "reading \<Rightarrow> ReadingBase" where
  "base (GlucoseReading b m) = b"
| "base (KetoneReading b) = b"

fun is_ketone :: "reading \<Rightarrow> bool" where
  "is_ketone (GlucoseReading b m) = False"
| "is_ketone (KetoneReading b) = True"

text \<open>The constructors \<^verbatim>\<open>GlucoseReading.__new__\<close> and \<^verbatim>\<open>KetoneReading.__new__\<close>.\<close>

definition new_GlucoseReading ::
  "datetime \<Rightarrow> pynum \<Rightarrow> Meal \<Rightarrow> string \<Rightarrow> mm_value \<Rightarrow> reading" where
  "new_GlucoseReading ts v ml c mm =
     GlucoseReading \<lparr>timestamp = ts, val = v, comment = c, measure_method = mm\<rparr> ml"

definition new_KetoneReading :: "datetime \<Rightarrow> pynum \<Rightarrow> string \<Rightarrow> reading" where
  "new_KetoneReading ts v c =
     KetoneReading \<lparr>timestamp = ts, val = v, comment = c, measure_method = MMEnum BLOOD_SAMPLE\<rparr>"

subsection \<open>GlucoseReading\<close>

definition glucose_get_value_as :: "ReadingBase \<Rightarrow> Unit \<Rightarrow> pynum" where
  "glucose_get_value_as b to_unit = convert_glucose_unit (val b) MG_DL to_unit"

definition glucose_as_csv :: "ReadingBase \<Rightarrow> Meal \<Rightarrow> Unit \<Rightarrow> exc + string" where
  "glucose_as_csv b ml unit =
     (case mm_dot_value (measure_method b) of
        Inl e \<Rightarrow> Inl e
      | Inr mv \<Rightarrow>
          Inr ([DQ] @ dt_str (timestamp b) @ [DQ] @ '','' @
               [DQ] @ fmt_2f (glucose_get_value_as b unit) @ [DQ] @ '','' @
               [DQ] @ Meal_value ml @ [DQ] @ '','' @
               [DQ] @ mv @ [DQ] @ '','' @
               [DQ] @ comment b @ [DQ]))"

text \<open>\<^verbatim>\<open>_get_libre_type\<close>\<close>

definition get_libre_type :: "ReadingBase \<Rightarrow> string" where
  "get_libre_type b =
     (if mm_eq_str (measure_method b) ''CGM'' then
        (if startswith (comment b) ''(Sensor)'' then ''0''
         else if startswith (comment b) ''(Scan)'' then ''1''
         else ''-1'')
      else if mm_eq_str (measure_method b) ''blood sample'' then
        (if startswith (comment b) ''(Blood)'' then ''2'' else ''-1'')
      else ''-1'')"

definition get_libre_historic_glucose :: "ReadingBase \<Rightarrow> Unit \<Rightarrow> string" where
  "get_libre_historic_glucose b unit =
     (if get_libre_type b = ''0'' then py_str (py_round (glucose_get_value_as b unit) 1) else [])"

definition get_libre_scan_glucose :: "ReadingBase \<Rightarrow> Unit \<Rightarrow> string" where
  "get_libre_scan_glucose b unit =
     (if get_libre_type b = ''1'' then py_str (py_round (glucose_get_value_as b unit) 1) else [])"

definition get_libre_strip_glucose :: "ReadingBase \<Rightarrow> Unit \<Rightarrow> string" where
  "get_libre_strip_glucose b unit =
     (if get_libre_type b = ''2'' then py_str (py_round (glucose_get_value_as b unit) 1) else [])"

text \<open>The format string of \<^verbatim>\<open>GlucoseReading.as_tsv\<close>: four fields, 8 tabs, a field, 7 tabs.\<close>

definition glucose_as_tsv :: "ReadingBase \<Rightarrow> Unit \<Rightarrow> string" where
  "glucose_as_tsv b unit =
     fmt_ymd_hm (timestamp b) @ [TAB] @ get_libre_type b @ [TAB] @
     get_libre_historic_glucose b unit @ [TAB] @ get_libre_scan_glucose b unit @
     replicate 8 TAB @ get_libre_strip_glucose b unit @ replicate 7 TAB"

subsection \<open>KetoneReading\<close>

text \<open>\<^verbatim>\<open>get_value_as(self, *args)\<close>: any arguments, all ignored.\<close>

definition ketone_get_value_as :: "ReadingBase \<Rightarrow> Unit list \<Rightarrow> pynum" where
  "ketone_get_value_as b args = val b"

definition ketone_as_csv :: "ReadingBase \<Rightarrow> Unit \<Rightarrow> exc + string" where
  "ketone_as_csv b unit =
     (case mm_dot_value (measure_method b) of
        Inl e \<Rightarrow> Inl e
      | Inr mv \<Rightarrow>
          Inr ([DQ] @ dt_str (timestamp b) @ [DQ] @ '','' @
               [DQ] @ fmt_2f (ketone_get_value_as b [unit]) @ [DQ] @ '','' @
               [DQ] @ mv @ [DQ] @ '','' @
               [DQ] @ comment b @ [DQ]))"

text \<open>The format string of \<^verbatim>\<open>KetoneReading.as_tsv\<close>: two fields, 11 tabs, a field, 6 tabs.\<close>

definition ketone_as_tsv :: "ReadingBase \<Rightarrow> Unit \<Rightarrow> string" where
  "ketone_as_tsv b unit =
     fmt_ymd_hm (timestamp b) @ [TAB] @ ''3'' @ replicate 11 TAB @
     py_str (ketone_get_value_as b [unit]) @ replicate 6 TAB"

subsection \<open>Method dispatch on the class of the reading\<close>

fun as_csv :: "reading \<Rightarrow> Unit \<Rightarrow> exc + string" where
  "as_csv (GlucoseReading b ml) unit = glucose_as_csv b ml unit"
| "as_csv (KetoneReading b) unit = ketone_as_csv b unit"

fun as_tsv :: "reading \<Rightarrow> Unit \<Rightarrow> string" where
  "as_tsv (GlucoseReading b ml) unit = glucose_as_tsv b unit"
| "as_tsv (KetoneReading b) unit = ketone_as_tsv b unit"

subsection \<open>MeterInfo\<close>

record MeterInfo =
  model :: string
  serial_number :: string
  version_info :: "string list"
  native_unit :: Unit

text \<open>\<^verbatim>\<open>MeterInfo.__str__\<close>, the template dedented.\<close>

definition MeterInfo_str :: "MeterInfo \<Rightarrow> string" where
  "MeterInfo_str i =
     (let version_information_string =
            (if version_info i \<noteq> [] then strip (join (LF # ''    '') (version_info i))
             else ''N/A'')
      in model i @ [LF] @
         ''Serial Number: '' @ serial_number i @ [LF] @
         ''Version Information:'' @ [LF] @
         ''    '' @ version_information_string @ [LF] @
         ''Native Unit: '' @ Unit_value (native_unit i) @ [LF])"

section \<open>glucometer.py\<close>

text \<open>
  \<^verbatim>\<open>main()\<close> is modelled from the parsed arguments on. What the driver module, the device,
  the clock, the file system, the terminal and \<^verbatim>\<open>dateutil\<close> do is the environment: each call
  either raises or returns. The effects of \<^verbatim>\<open>main\<close> are collected in a record.
\<close>

datatype action = Help | Info | Zero | Dump | Datetime

datatype field = F_timestamp | F_value | F_comment | F_measure_method

record Args =
  arg_driver :: string
  arg_device :: "string option"
  arg_action :: "action option"
  arg_unit :: "Unit option"
  arg_sort_by :: "field option"
  arg_with_ketone :: bool
  arg_to_file :: bool
  arg_output_folder :: string
  arg_set :: "string option"

record Env =
  env_import_module :: "exc + string"
  env_Device :: "exc option"
  env_connect :: "exc option"
  env_get_meter_info :: "exc + MeterInfo"
  env_get_datetime :: "exc + datetime"
  env_set_datetime :: "datetime option \<Rightarrow> exc + datetime"
  env_get_readings :: "exc + reading list"
  env_zero_log :: "exc option"
  env_disconnect :: "exc option"
  env_now :: "nat \<Rightarrow> datetime"
  env_open :: "string \<Rightarrow> exc option"
  env_input :: string
  env_date_parse :: "string \<Rightarrow> exc + datetime"

record Out =
  stdout :: string
  errlog :: "string list"
  outfile :: "(string \<times> string) option"
  outfile_mode :: "nat option"
  zeroed :: bool
  disconnected :: bool

definition out0 :: Out where
  "out0 = \<lparr>stdout = [], errlog = [], outfile = None, outfile_mode = None,
           zeroed = False, disconnected = False\<rparr>"

definition print :: "string \<Rightarrow> Out \<Rightarrow> Out" where
  "print s out = out\<lparr>stdout := stdout out @ s @ [LF]\<rparr>"

definition logging_error :: "string \<Rightarrow> Out \<Rightarrow> Out" where
  "logging_error s out = out\<lparr>errlog := errlog out @ [s]\<rparr>"

text \<open>How the body of the \<^verbatim>\<open>try\<close> block of \<^verbatim>\<open>main\<close> ends.\<close>

datatype flow = Done | Ret int | Exc exc

text \<open>What \<^verbatim>\<open>main()\<close> does: it returns a value (\<^verbatim>\<open>None\<close> when it falls off its end) or raises.\<close>

datatype result = Return "int option" | Raise exc

fun action_name :: "action option \<Rightarrow> string" where
  "action_name None = ''None''"
| "action_name (Some Help) = ''help''"
| "action_name (Some Info) = ''info''"
| "action_name (Some Zero) = ''zero''"
| "action_name (Some Dump) = ''dump''"
| "action_name (Some Datetime) = ''datetime''"

text \<open>
  Modelled from the spec: \<^verbatim>\<open>common.UNIT_MMOLL\<close> (and \<^verbatim>\<open>common.VALID_UNITS\<close>, the choices of
  \<^verbatim>\<open>--unit\<close>) are used by \<^verbatim>\<open>glucometer.py\<close> and are not defined in the \<^verbatim>\<open>common.py\<close> at hand.
  The spec says that the unit of \<^verbatim>\<open>dump\<close> is overridden to MMOL_L.
\<close>

definition UNIT_MMOLL :: Unit where
  "UNIT_MMOLL = MMOL_L"

text \<open>
  Lines 108 to 110: \<^verbatim>\<open>unit = common.UNIT_MMOLL #args.unit\<close>, then the native unit of the
  device if \<^verbatim>\<open>unit is None\<close>.
\<close>

definition dump_unit :: "Args \<Rightarrow> MeterInfo \<Rightarrow> Unit" where
  "dump_unit args device_info =
     (let unit = Some UNIT_MMOLL
      in case unit of None \<Rightarrow> native_unit device_info | Some u \<Rightarrow> u)"

fun is_str :: "mm_value \<Rightarrow> bool" where
  "is_str (MMStr t) = True"
| "is_str (MMEnum m) = False"

fun str_of :: "mm_value \<Rightarrow> string" where
  "str_of (MMStr t) = t"
| "str_of (MMEnum m) = []"

text \<open>
  \<^verbatim>\<open>sorted(readings, key=lambda reading: getattr(reading, args.sort_by))\<close>: a stable sort.
  Members of \<^verbatim>\<open>MeasurementMethod\<close> have no order, so comparing one raises \<^verbatim>\<open>TypeError\<close>;
  \<^verbatim>\<open>sorted\<close> compares as soon as there are two elements.
\<close>

fun sorted_by :: "field \<Rightarrow> reading list \<Rightarrow> exc + reading list" where
  "sorted_by F_timestamp rs = Inr (sort_key (\<lambda>r. dt_key (timestamp (base r))) rs)"
| "sorted_by F_value rs = Inr (sort_key (\<lambda>r. cmp_key (val (base r))) rs)"
| "sorted_by F_comment rs = Inr (sort_key (\<lambda>r. comment (base r)) rs)"
| "sorted_by F_measure_method rs =
     (if length rs < 2 then Inr rs
      else if list_all (\<lambda>r. is_str (measure_method (base r))) rs
      then Inr (sort_key (\<lambda>r. str_of (measure_method (base r))) rs)
      else Inl TypeError)"

text \<open>Lines 129 to 133: the four writes of the header.\<close>

definition tsv_columns :: "string list" where
  "tsv_columns =
     [''ID'', ''Time'', ''Record Type'', ''Historic Glucose (mmol/L)'', ''Scan Glucose (mmol/L)'',
      ''Non-numeric Rapid-Acting Insulin'',
      ''Rapid-Acting Insulin (units)'', ''Non-numeric Food'', ''Carbohydrates (grams)'',
      ''Non-numeric Long-Acting Insulin'',
      ''Long-Acting Insulin (units)'', ''Notes'', ''Strip Glucose (mmol/L)'', ''Ketone (mmol/L)'',
      ''Meal Insulin (units)'',
      ''Correction Insulin (units)'', ''User Change Insulin (units)'', ''Previous Time'',
      ''Updated Time'']"

definition tsv_header :: string where
  "tsv_header =
     (''Some guy'' @ [CR, LF] @ ''# 000000001'' @ [CR, LF]) @
     (join [TAB] (take 6 tsv_columns) @ [TAB]) @
     (join [TAB] (take 4 (drop 6 tsv_columns)) @ [TAB]) @
     (join [TAB] (take 5 (drop 10 tsv_columns)) @ [TAB]) @
     (join [TAB] (drop 15 tsv_columns) @ [CR, LF])"

text \<open>
  Lines 124 and 125: the generator that drops the readings of the future. It is consumed
  by the loop that writes the rows, after the file name has been made, so
  \<^verbatim>\<open>datetime.datetime.now()\<close> is called once for each reading, when the loop reaches it.
  \<open>now k\<close> is what the \<open>k\<close>-th call of the run returns.
\<close>

fun future_filter :: "(nat \<Rightarrow> datetime) \<Rightarrow> nat \<Rightarrow> reading list \<Rightarrow> reading list" where
  "future_filter now k [] = []"
| "future_filter now k (reading # readings) =
     (if \<not> dt_key (timestamp (base reading)) > dt_key (now k)
      then reading # future_filter now (Suc k) readings
      else future_filter now (Suc k) readings)"

text \<open>Lines 135 to 140: the loop that writes a row for each reading it is given.\<close>

fun write_rows :: "nat \<Rightarrow> reading list \<Rightarrow> Unit \<Rightarrow> string" where
  "write_rows rowid [] unit = []"
| "write_rows rowid (reading # readings) unit =
     (str_nat rowid @ [TAB]) @ as_tsv reading unit @ [CR, LF] @
     write_rows (Suc rowid) readings unit"

text \<open>Lines 144 and 145.\<close>

fun print_csv :: "reading list \<Rightarrow> Unit \<Rightarrow> Out \<Rightarrow> flow \<times> Out" where
  "print_csv [] unit out = (Done, out)"
| "print_csv (r # rs) unit out =
     (case as_csv r unit of
        Inl e \<Rightarrow> (Exc e, out)
      | Inr s \<Rightarrow> print_csv rs unit (print s out))"

definition do_info :: "Env \<Rightarrow> MeterInfo \<Rightarrow> Out \<Rightarrow> flow \<times> Out" where
  "do_info env device_info out =
     (case env_get_datetime env of
        Inl NotImplementedError \<Rightarrow> (Done, print (MeterInfo_str device_info @ ''Time: '' @ ''N/A'') out)
      | Inl e \<Rightarrow> (Exc e, out)
      | Inr d \<Rightarrow> (Done, print (MeterInfo_str device_info @ ''Time: '' @ dt_str d) out))"

text \<open>Lines 114 to 120: the ketone readings are dropped unless asked for, then the sort.\<close>

definition select_readings :: "Args \<Rightarrow> reading list \<Rightarrow> exc + reading list" where
  "select_readings args readings0 =
     (let readings1 = (if \<not> arg_with_ketone args
                       then filter (\<lambda>reading. \<not> is_ketone reading) readings0
                       else readings0)
      in case arg_sort_by args of
           None \<Rightarrow> Inr readings1
         | Some f \<Rightarrow> sorted_by f readings1)"

definition do_dump :: "Args \<Rightarrow> Env \<Rightarrow> MeterInfo \<Rightarrow> Out \<Rightarrow> flow \<times> Out" where
  "do_dump args env device_info out =
     (let unit = dump_unit args device_info in
      case env_get_readings env of
        Inl e \<Rightarrow> (Exc e, out)
      | Inr readings0 \<Rightarrow>
          (case select_readings args readings0 of
             Inl e \<Rightarrow> (Exc e, out)
           | Inr readings2 \<Rightarrow>
               if arg_to_file args then
                 (let outputfilename =
                        arg_output_folder args @ ''/'' @ fmt_ymdhms (env_now env 0) @ ''.csv'' in
                  case env_open env outputfilename of
                    Some e \<Rightarrow> (Exc e, out)
                  | None \<Rightarrow>
                      (Done, out\<lparr>outfile :=
                                    Some (outputfilename,
                                          tsv_header @
                                          write_rows 1 (future_filter (env_now env) 1 readings2)
                                            unit),
                                  outfile_mode := Some 511\<rparr>))
               else print_csv readings2 unit out))"

definition print_datetime :: "exc + datetime \<Rightarrow> Out \<Rightarrow> flow \<times> Out" where
  "print_datetime r out = (case r of Inl e \<Rightarrow> (Exc e, out) | Inr d \<Rightarrow> (Done, print (dt_str d) out))"

definition do_datetime :: "Args \<Rightarrow> Env \<Rightarrow> Out \<Rightarrow> flow \<times> Out" where
  "do_datetime args env out =
     (if arg_set args = Some ''now'' then print_datetime (env_set_datetime env None) out
      else if arg_set args \<noteq> None \<and> arg_set args \<noteq> Some [] then
        (case env_date_parse env (the (arg_set args)) of
           Inl (ImportError m) \<Rightarrow>
             (Ret 1, logging_error (''Unable to import module '' @ [DQ] @ ''dateutil'' @ [DQ] @
                                    '', please install it.'') out)
         | Inl ValueError \<Rightarrow>
             (Ret 1, logging_error (the (arg_set args) @ '': not a valid date'') out)
         | Inl e \<Rightarrow> (Exc e, out)
         | Inr new_date \<Rightarrow> print_datetime (env_set_datetime env (Some new_date)) out)
      else print_datetime (env_get_datetime env) out)"

definition do_zero :: "Env \<Rightarrow> Out \<Rightarrow> flow \<times> Out" where
  "do_zero env out =
     (let out1 = out\<lparr>stdout := stdout out @ ''Delete the device data log? (y/N) ''\<rparr>;
          confirm = env_input env
      in if lower confirm \<in> set [''y'', ''ye'', ''yes''] then
           (case env_zero_log env of
              Some e \<Rightarrow> (Exc e, out1)
            | None \<Rightarrow> (Done, print (LF # ''Device data log zeroed.'') (out1\<lparr>zeroed := True\<rparr>)))
         else (Ret 1, print (LF # ''Device data log not zeroed.'') out1))"

text \<open>The \<^verbatim>\<open>try\<close> block of lines 99 to 175.\<close>

definition try_body :: "Args \<Rightarrow> Env \<Rightarrow> MeterInfo \<Rightarrow> Out \<Rightarrow> flow \<times> Out" where
  "try_body args env device_info out =
     (if arg_action args = Some Info then do_info env device_info out
      else if arg_action args = Some Dump then do_dump args env device_info out
      else if arg_action args = Some Datetime then do_datetime args env out
      else if arg_action args = Some Zero then do_zero env out
      else (Ret 1, out))"

definition main :: "Args \<Rightarrow> Env \<Rightarrow> result \<times> Out" where
  "main args env =
     (case env_import_module env of
        Inl (ImportError m) \<Rightarrow>
          (Return (Some 1),
           logging_error (''Error importing driver '' @ [DQ] @ arg_driver args @ [DQ] @
                          '', please check your --driver parameter:'' @ [LF] @ m) out0)
      | Inl e \<Rightarrow> (Raise e, out0)
      | Inr doc \<Rightarrow>
          if arg_action args = Some Help then (Return (Some 0), print doc out0)
          else
            (case env_Device env of
               Some e \<Rightarrow> (Raise e, out0)
             | None \<Rightarrow>
                 (case env_connect env of
                    Some e \<Rightarrow> (Raise e, out0)
                  | None \<Rightarrow>
                      (case env_get_meter_info env of
                         Inl e \<Rightarrow> (Raise e, out0)
                       | Inr device_info \<Rightarrow>
                           (case try_body args env device_info out0 of
                              (Exc (Error msg), out) \<Rightarrow>
                                (Return (Some 1),
                                 print (''Error while executing '' @ [SQ] @
                                        action_name (arg_action args) @ [SQ] @ '': '' @ msg) out)
                            | (Exc e, out) \<Rightarrow> (Raise e, out)
                            | (Ret n, out) \<Rightarrow> (Return (Some n), out)
                            | (Done, out) \<Rightarrow>
                                (case env_disconnect env of
                                   Some e \<Rightarrow> (Raise e, out)
                                 | None \<Rightarrow> (Return None, out\<lparr>disconnected := True\<rparr>)))))))"

text \<open>
  Lines 179 and 180: \<^verbatim>\<open>if __name__ == "__main__": main()\<close>. The value \<^verbatim>\<open>main\<close> returns is
  dropped, so the interpreter exits with status 0 when \<^verbatim>\<open>main\<close> returns and with status 1
  when an exception leaves it.
\<close>

definition exit_status :: "Args \<Rightarrow> Env \<Rightarrow> nat" where
  "exit_status args env = (case fst (main args env) of Return r \<Rightarrow> 0 | Raise e \<Rightarrow> 1)"

section \<open>Reading a file back\<close>

text \<open>\<^verbatim>\<open>s.split(c)\<close> for a separator of one character.\<close>

fun split_on :: "char \<Rightarrow> string \<Rightarrow> string list" where
  "split_on c [] = [[]]"
| "split_on c (x # xs) =
     (if x = c then [] # split_on c xs
      else (case split_on c xs of [] \<Rightarrow> [[x]] | y # ys \<Rightarrow> (x # y) # ys))"

text \<open>A string with no tab, carriage return or line feed in it.\<close>

definition no_ctl :: "string \<Rightarrow> bool" where
  "no_ctl s = (TAB \<notin> set s \<and> CR \<notin> set s \<and> LF \<notin> set s)"

section \<open>A run of the program\<close>

text \<open>
  A device with three readings, dumped to a file with the ketone readings, sorted by
  timestamp, at a time when the first reading is one second in the future.
\<close>

definition example_time :: datetime where
  "example_time =
     \<lparr>year = 2017, month = 3, day = 5, hour = 7, minute = 9, second = 1, microsecond = 0\<rparr>"

definition example_later :: datetime where
  "example_later =
     \<lparr>year = 2017, month = 3, day = 5, hour = 7, minute = 9, second = 2, microsecond = 0\<rparr>"

definition example_info :: MeterInfo where
  "example_info =
     \<lparr>model = ''FreeStyle Libre'', serial_number = ''N/A'', version_info = [],
      native_unit = MG_DL\<rparr>"

definition example_readings :: "reading list" where
  "example_readings =
     [new_GlucoseReading example_later (PyInt 100) NONE ''(Sensor) foo'' (MMEnum CGM),
      new_KetoneReading example_time (PyFloat (float_lit (6 / 10))) ''x'',
      new_GlucoseReading example_time (PyFloat (float_lit 100)) NONE ''(Blood) bar'' (MMStr ''blood sample'')]"

definition example_args :: Args where
  "example_args =
     \<lparr>arg_driver = ''fslibre'', arg_device = None, arg_action = Some Dump, arg_unit = None,
      arg_sort_by = Some F_timestamp, arg_with_ketone = True, arg_to_file = True,
      arg_output_folder = ''.'', arg_set = None\<rparr>"

definition example_env :: Env where
  "example_env =
     \<lparr>env_import_module = Inr ''Driver for FreeStyle Libre devices.'',
      env_Device = None, env_connect = None, env_get_meter_info = Inr example_info,
      env_get_datetime = Inr example_time, env_set_datetime = (\<lambda>d. Inr example_time),
      env_get_readings = Inr example_readings, env_zero_log = None, env_disconnect = None,
      env_now = (\<lambda>k. example_time), env_open = (\<lambda>f. None), env_input = ''n'',
      env_date_parse = (\<lambda>s. Inl ValueError)\<rparr>"

section \<open>Rounding lemmas\<close>

lemma round_half_even_bounds:
  "\<bar>of_int (round_half_even q) - q\<bar> \<le> 1 / 2"
proof -
  have "of_int \<lfloor>q\<rfloor> \<le> q" "q < of_int \<lfloor>q\<rfloor> + 1" by linarith+
  then show ?thesis
    unfolding round_half_even_def round_pick_def by (simp add: abs_if) linarith
qed

section \<open>Characters of the formatted fields, and splitting\<close>

lemma no_ctl_Nil [simp]: "no_ctl []"
  by (simp add: no_ctl_def)

lemma no_ctl_append [simp]: "no_ctl (a @ b) = (no_ctl a \<and> no_ctl b)"
  by (auto simp: no_ctl_def)

lemma no_ctl_Cons [simp]: "no_ctl (c # s) = (c \<noteq> TAB \<and> c \<noteq> CR \<and> c \<noteq> LF \<and> no_ctl s)"
  by (auto simp: no_ctl_def)

lemma no_ctl_replicate [simp]: "no_ctl (replicate n c) = (n = 0 \<or> (c \<noteq> TAB \<and> c \<noteq> CR \<and> c \<noteq> LF))"
  by (induction n) auto

lemma digit_char_cases:
  "digit_char d \<in> set ''0123456789''"
  unfolding digit_char_def by (rule nth_mem) simp

lemma digit_char_no_ctl [simp]: "digit_char d \<noteq> TAB" "digit_char d \<noteq> CR" "digit_char d \<noteq> LF"
  using digit_char_cases [of d] by (auto simp: TAB_def CR_def LF_def)

lemma no_ctl_str_nat [simp]: "no_ctl (str_nat n)"
  by (induction n rule: str_nat.induct) (subst str_nat.simps, simp)

lemma no_ctl_zfill [simp]: "no_ctl (zfill w s) = no_ctl s"
  by (auto simp: zfill_def TAB_def CR_def LF_def)

lemma no_ctl_str_digits [simp]: "no_ctl (str_digits i)"
  by (induction i rule: str_digits.induct) (subst str_digits.simps, simp)

lemma no_ctl_str_int [simp]: "no_ctl (str_int i)"
  by (simp add: str_int_def TAB_def CR_def LF_def)

lemma no_ctl_take [simp]: "no_ctl s \<Longrightarrow> no_ctl (take n s)"
  unfolding no_ctl_def by (meson in_set_takeD)

lemma no_ctl_drop [simp]: "no_ctl s \<Longrightarrow> no_ctl (drop n s)"
  unfolding no_ctl_def by (meson in_set_dropD)

lemma no_ctl_fmt_repr [simp]: "no_ctl ds \<Longrightarrow> no_ctl (fmt_repr ds decpt)"
  by (simp add: fmt_repr_def fmt_positional_def fmt_exponent_def TAB_def CR_def LF_def)

lemma no_ctl_str_pos [simp]: "no_ctl (str_pos q)"
  by (simp add: str_pos_def fmt_digits_def split: prod.splits)

lemma no_ctl_str_float [simp]: "no_ctl (str_float x)"
  by (cases x) (simp_all add: TAB_def CR_def LF_def)

lemma no_ctl_py_str [simp]: "no_ctl (py_str v)"
  by (cases v) simp_all

lemma no_ctl_fmt_ymd_hm [simp]: "no_ctl (fmt_ymd_hm d)"
  by (simp add: fmt_ymd_hm_def TAB_def CR_def LF_def)

lemma split_on_no_sep: "c \<notin> set s \<Longrightarrow> split_on c s = [s]"
  by (induction s) auto

lemma split_on_append: "c \<notin> set a \<Longrightarrow> split_on c (a @ c # b) = a # split_on c b"
  by (induction a) auto

lemma split_on_sep [simp]: "split_on c (c # b) = [] # split_on c b"
  by simp

lemma split_on_tab_field: "no_ctl a \<Longrightarrow> split_on TAB (a @ TAB # b) = a # split_on TAB b"
  by (rule split_on_append) (simp add: no_ctl_def)

lemma split_on_tab_last: "no_ctl a \<Longrightarrow> split_on TAB a = [a]"
  by (rule split_on_no_sep) (simp add: no_ctl_def)

lemma split_on_replicate: "split_on c (replicate n c @ s) = replicate n [] @ split_on c s"
  by (induction n) simp_all

lemma split_tab_1: "no_ctl a \<Longrightarrow> split_on TAB (a @ [TAB] @ rest) = a # split_on TAB rest"
  using split_on_tab_field [of a rest] by simp

lemma split_tab_n:
  "no_ctl a \<Longrightarrow> split_on TAB (a @ replicate (Suc n) TAB @ rest) = a # replicate n [] @ split_on TAB rest"
  using split_on_tab_field [of a "replicate n TAB @ rest"] by (simp add: split_on_replicate)

lemma split_tab_end:
  "no_ctl a \<Longrightarrow> split_on TAB (a @ replicate (Suc n) TAB) = a # replicate (Suc n) []"
  using split_tab_n [of a n "[]"] by (simp flip: replicate_append_same)

lemma no_ctl_3: "no_ctl ''3''"
  by (simp add: TAB_def CR_def LF_def)

lemma split_ketone_as_tsv:
  "split_on TAB (ketone_as_tsv b unit) =
     [fmt_ymd_hm (timestamp b), ''3''] @ replicate 10 [] @ [py_str (val b)] @ replicate 6 []"
proof -
  have e: "replicate 11 TAB = replicate (Suc 10) TAB" "replicate 6 TAB = replicate (Suc 5) TAB"
    by simp_all
  have "split_on TAB (ketone_as_tsv b unit) =
          fmt_ymd_hm (timestamp b) # ''3'' # replicate 10 [] @ py_str (val b) # replicate (Suc 5) []"
    unfolding ketone_as_tsv_def ketone_get_value_as_def e
    by (simp only: split_tab_1 split_tab_n split_tab_end no_ctl_fmt_ymd_hm no_ctl_3 no_ctl_py_str)
  then show ?thesis by simp
qed


section \<open>Unit conversion\<close>

text \<open>
  C3: for every value \<open>v\<close> and every unit \<open>A\<close>, converting from \<open>A\<close> to \<open>A\<close> returns \<open>v\<close> itself:
  the same Python object, an int staying an int, with no rounding.
\<close>

theorem convert_glucose_unit_identity: "convert_glucose_unit v A A = v"
  by simp

section \<open>The unit of dump\<close>


section \<open>Ketone readings\<close>

text \<open>
  C10: \<^verbatim>\<open>KetoneReading.get_value_as\<close> returns the stored value whatever arguments it is given,
  so the CSV and the TSV rendering of a ketone reading are the same for MG_DL and MMOL_L: the
  stored value, formatted with \<^verbatim>\<open>"%.2f"\<close> in the CSV line and with \<^verbatim>\<open>str\<close> in the TSV row.
\<close>

theorem ketone_get_value_as_ignores_unit:
  "ketone_get_value_as b args = val b \<and>
   as_csv (KetoneReading b) MG_DL = as_csv (KetoneReading b) MMOL_L \<and>
   as_tsv (KetoneReading b) MG_DL = as_tsv (KetoneReading b) MMOL_L \<and>
   as_csv (new_KetoneReading ts v c) MG_DL =
     Inr ([DQ] @ dt_str ts @ [DQ] @ '','' @ [DQ] @ fmt_2f v @ [DQ] @ '','' @
          [DQ] @ ''blood sample'' @ [DQ] @ '','' @ [DQ] @ c @ [DQ]) \<and>
   as_tsv (new_KetoneReading ts v c) MG_DL =
     fmt_ymd_hm ts @ [TAB] @ ''3'' @ replicate 11 TAB @ py_str v @ replicate 6 TAB"
  by (simp add: ketone_get_value_as_def ketone_as_csv_def ketone_as_tsv_def new_KetoneReading_def
        split: sum.splits)

text \<open>
  C9: the TSV row of a ketone reading, whatever its timestamp, value and comment are, has
  19 tab-separated fields: the time, the type code \<open>3\<close>, ten blank fields, the stored value
  as \<^verbatim>\<open>str\<close> prints it, and six blank fields. In the file the row comes after the row id and
  a tab, so the value is in field 13, under the header \<open>Ketone (mmol/L)\<close>.
\<close>

theorem ketone_as_tsv_columns:
  "split_on TAB (as_tsv (KetoneReading b) unit) =
     [fmt_ymd_hm (timestamp b), ''3''] @ replicate 10 [] @ [py_str (val b)] @ replicate 6 [] \<and>
   tsv_columns ! 13 = ''Ketone (mmol/L)'' \<and>
   split_on TAB (str_nat rowid @ [TAB] @ as_tsv (KetoneReading b) unit) ! 13 = py_str (val b)"
  by (simp add: split_ketone_as_tsv split_on_tab_field tsv_columns_def nth_append)

section \<open>The record type of a glucose reading\<close>

text \<open>
  \<^verbatim>\<open>_get_libre_type\<close> compares \<^verbatim>\<open>measure_method\<close> with the strings \<^verbatim>\<open>'CGM'\<close> and
  \<^verbatim>\<open>'blood sample'\<close>. For a member of \<^verbatim>\<open>MeasurementMethod\<close> both comparisons are false, so the
  type is \<open>-1\<close> whatever the comment is; the mapping of the comment prefixes is reached only
  when the measure method is one of the two plain strings.
\<close>

lemma get_libre_type_member: "get_libre_type (b\<lparr>measure_method := MMEnum m\<rparr>) = ''-1''"
  by (simp add: get_libre_type_def)

lemma get_libre_type_string:
  "get_libre_type \<lparr>timestamp = ts, val = v, comment = ''(Sensor)'' @ c, measure_method = MMStr ''CGM''\<rparr> = ''0''"
  "get_libre_type \<lparr>timestamp = ts, val = v, comment = ''(Scan)'' @ c, measure_method = MMStr ''CGM''\<rparr> = ''1''"
  "get_libre_type \<lparr>timestamp = ts, val = v, comment = ''(Blood)'' @ c, measure_method = MMStr ''blood sample''\<rparr> = ''2''"
  by (simp_all add: get_libre_type_def startswith_def)

lemma get_libre_unrecognized_blank:
  "get_libre_type b = ''-1'' \<Longrightarrow>
     get_libre_historic_glucose b unit = [] \<and> get_libre_scan_glucose b unit = [] \<and>
     get_libre_strip_glucose b unit = []"
  by (simp add: get_libre_historic_glucose_def get_libre_scan_glucose_def
        get_libre_strip_glucose_def)

lemma as_tsv_cgm_string_sensor:
  "as_tsv (new_GlucoseReading example_time (PyInt 100) NONE ''(Sensor) foo'' (MMStr ''CGM'')) MMOL_L
     = ''2017/03/05 07:09'' @ [TAB] @ ''0'' @ [TAB] @ ''5.6'' @ replicate 16 TAB"
  by code_simp

text \<open>
  C1: a glucose reading with measure method CGM, comment \<open>(Sensor) foo\<close> and value 100 mg/dL
  should give, in mmol/L, the type \<open>0\<close> and \<open>5.6\<close> in the historic glucose column. With the
  enum member \<^verbatim>\<open>MeasurementMethod.CGM\<close> the code gives the type \<open>-1\<close> and leaves every glucose
  column blank: the row is the time, a tab, \<open>-1\<close> and 17 tabs.
\<close>

theorem as_tsv_cgm_member_sensor:
  "as_tsv (new_GlucoseReading example_time (PyInt 100) NONE ''(Sensor) foo'' (MMEnum CGM)) MMOL_L
     = ''2017/03/05 07:09'' @ [TAB] @ ''-1'' @ replicate 17 TAB"
  by code_simp

section \<open>The exit status\<close>

lemma exit_status_main_returns: "fst (main args env) = Return r \<Longrightarrow> exit_status args env = 0"
  by (simp add: exit_status_def)


section \<open>The file that dump writes\<close>

lemma split_on_not_Nil [simp]: "split_on c s \<noteq> []"
  by (induction s) (auto split: list.splits)

lemma split_on_join: "split_on c (a @ c # b) = split_on c a @ split_on c b"
proof (induction a)
  case Nil
  show ?case by simp
next
  case (Cons x a)
  obtain y ys where s: "split_on c a = y # ys"
    using split_on_not_Nil [of c a] by (cases "split_on c a") auto
  with Cons show ?case by simp
qed

lemma tsv_header_ends: "tsv_header = butlast tsv_header @ [LF]"
  by (simp add: tsv_header_def tsv_columns_def)

lemma tsv_header_lines:
  "split_on LF (butlast tsv_header) =
     [''Some guy'' @ [CR], ''# 000000001'' @ [CR], join [TAB] tsv_columns @ [CR]]"
  by code_simp

lemma split_tsv_header:
  "split_on LF (tsv_header @ rest) =
     [''Some guy'' @ [CR], ''# 000000001'' @ [CR], join [TAB] tsv_columns @ [CR]] @ split_on LF rest"
proof -
  have "tsv_header @ rest = butlast tsv_header @ LF # rest"
    by (subst tsv_header_ends) simp
  then show ?thesis by (simp only: split_on_join tsv_header_lines)
qed

lemma tsv_columns_split:
  "length tsv_columns = 19 \<and> split_on TAB (join [TAB] tsv_columns) = tsv_columns"
  by code_simp

lemma LF_not_TAB: "LF \<noteq> TAB" "LF \<noteq> CR"
  by (simp_all add: LF_def TAB_def CR_def)

lemma no_ctl_LF: "no_ctl s \<Longrightarrow> LF \<notin> set s"
  by (simp add: no_ctl_def)

lemma no_ctl_get_libre_type [simp]: "no_ctl (get_libre_type b)"
  by (simp add: get_libre_type_def TAB_def CR_def LF_def)

lemma LF_notin_as_tsv: "LF \<notin> set (as_tsv r unit)"
proof (cases r)
  case (GlucoseReading b ml)
  then show ?thesis
    using no_ctl_LF [OF no_ctl_fmt_ymd_hm [of "timestamp b"]]
      no_ctl_LF [OF no_ctl_get_libre_type [of b]]
      no_ctl_LF [OF no_ctl_py_str [of "py_round (glucose_get_value_as b unit) 1"]]
    by (simp add: glucose_as_tsv_def get_libre_historic_glucose_def get_libre_scan_glucose_def
          get_libre_strip_glucose_def LF_not_TAB LF_not_TAB [symmetric])
next
  case (KetoneReading b)
  then show ?thesis
    using no_ctl_LF [OF no_ctl_fmt_ymd_hm [of "timestamp b"]]
      no_ctl_LF [OF no_ctl_py_str [of "val b"]]
    by (simp add: ketone_as_tsv_def ketone_get_value_as_def LF_def TAB_def)
qed

lemma upt_shift: "[k..<Suc (k + n)] = k # [Suc k..<Suc (k + n)]"
  by (simp add: upt_conv_Cons del: upt_Suc)

lemma split_write_rows:
  "split_on LF (write_rows rowid rs unit) =
     map (\<lambda>(i, r). str_nat i @ [TAB] @ as_tsv r unit @ [CR]) (zip [rowid..<rowid + length rs] rs) @ [[]]"
proof (induction rs arbitrary: rowid)
  case Nil
  show ?case by simp
next
  case (Cons r rs)
  have a: "LF \<notin> set (str_nat rowid @ [TAB] @ as_tsv r unit @ [CR])"
    using no_ctl_LF [OF no_ctl_str_nat [of rowid]] LF_notin_as_tsv [of r unit]
    by (simp add: LF_not_TAB)
  have "write_rows rowid (r # rs) unit =
          (str_nat rowid @ [TAB] @ as_tsv r unit @ [CR]) @ LF # write_rows (Suc rowid) rs unit"
    by simp
  then have "split_on LF (write_rows rowid (r # rs) unit) =
          (str_nat rowid @ [TAB] @ as_tsv r unit @ [CR]) # split_on LF (write_rows (Suc rowid) rs unit)"
    using split_on_append [OF a] by simp
  then show ?case
    by (simp add: Cons.IH upt_shift del: upt_Suc)
qed

lemma future_filter_zip:
  "future_filter now k rs =
     map fst (filter (\<lambda>(r, i). dt_key (timestamp (base r)) \<le> dt_key (now i))
                     (zip rs [k..<k + length rs]))"
proof (induction rs arbitrary: k)
  case Nil
  show ?case by simp
next
  case (Cons r rs)
  show ?case
    by (simp add: Cons.IH not_less upt_shift del: upt_Suc)
qed

lemma future_filter_const:
  "future_filter (\<lambda>i. t) k rs = filter (\<lambda>r. dt_key (timestamp (base r)) \<le> dt_key t) rs"
  by (induction rs arbitrary: k) (simp_all add: not_less)

lemma main_dump_outfile:
  assumes "env_import_module env = Inr doc" and "arg_action args = Some Dump"
    and "env_Device env = None" and "env_connect env = None"
    and "env_get_meter_info env = Inr device_info"
    and "arg_to_file args" and "env_get_readings env = Inr readings0"
    and "select_readings args readings0 = Inr readings"
    and "env_open env (arg_output_folder args @ ''/'' @ fmt_ymdhms (env_now env 0) @ ''.csv'') = None"
  shows "outfile (snd (main args env)) =
           Some (arg_output_folder args @ ''/'' @ fmt_ymdhms (env_now env 0) @ ''.csv'',
                 tsv_header @ write_rows 1 (future_filter (env_now env) 1 readings) MMOL_L)"
  using assms
  by (simp add: main_def try_body_def do_dump_def dump_unit_def UNIT_MMOLL_def out0_def
        split: option.splits)






end
